theory Spec2Isabelle
  imports Complex_Main
begin

section \<open>Values shared by the alert system and the detector\<close>

text \<open>
  Any Python exception caught by an \<open>except Exception\<close> clause. The handlers of the
  source never look at the exception, so one constructor is enough.
\<close>

datatype py_exn = PyException

text \<open>
  A numpy array as far as the source looks at it: its \<open>shape\<close> and its elements.
  \<open>frame.size\<close> is the product of the shape.
\<close>

record ndarray =
  shape :: "nat list"
  pixels :: "nat list"

definition nd_size :: "ndarray \<Rightarrow> nat" where
  "nd_size a = prod_list (shape a)"

text \<open>
  What a caller may pass as \<open>frame\<close>: \<open>None\<close>, an object that is not a
  \<open>numpy.ndarray\<close>, or an array.
\<close>

datatype py_frame = PyNone | NotNdarray | Ndarray ndarray

text \<open>
  Python's slice \<open>xs[i:]\<close> for an integer \<open>i\<close>: a negative start counts from the
  end and is clipped at the beginning of the list; a start beyond the end gives the
  empty list.
\<close>

definition py_slice_from :: "int \<Rightarrow> 'a list \<Rightarrow> 'a list" where
  "py_slice_from i xs =
     (if i < 0 then drop (nat (int (length xs) + i)) xs else drop (nat i) xs)"

section \<open>alert\_system.py\<close>

text \<open>The dictionary \<open>alert_info\<close> built by \<open>trigger_alert\<close>.\<close>

record alert_info =
  timestamp :: string
  detections :: "string list"
  confidence_scores :: "real list"
  screenshot :: "string option"

text \<open>
  The fields of an \<open>AlertSystem\<close> instance. \<open>sound\<close> is the loaded
  \<open>pygame.mixer.Sound\<close> (named by its file) or \<open>None\<close>. The lock is free between
  two calls of one thread and is not a field here; the section on concurrent callers
  models it by the atomic steps it delimits. Times are seconds as \<open>time.time()\<close>
  returns them, taken as real numbers.
\<close>

record alert_system =
  alert_folder :: string
  sound_file :: string
  cooldown :: real
  last_alert_time :: real
  sound :: "string option"
  alert_log :: "alert_info list"

text \<open>
  What the outside world answers during \<open>__init__\<close>: the module flag
  \<open>PYGAME_AVAILABLE\<close>, the outcome of \<open>mkdir\<close>, of \<open>sound_file.exists()\<close>
  and of \<open>pygame.mixer.init()\<close> followed by \<open>pygame.mixer.Sound(...)\<close>.
\<close>

record init_env =
  pygame_available :: bool
  mkdir :: "string \<Rightarrow> py_exn + unit"
  file_exists :: "string \<Rightarrow> py_exn + bool"
  mixer_load :: "string \<Rightarrow> py_exn + string"

definition init :: "init_env \<Rightarrow> string \<Rightarrow> string \<Rightarrow> real \<Rightarrow> py_exn + alert_system" where
  "init env folder sfile cd =
     (let cd1 = (if cd < 0 then 5 else cd);
          folder1 = (case mkdir env folder of Inr u \<Rightarrow> folder | Inl e \<Rightarrow> ''.'');
          snd0 = (if pygame_available env
                  then (case file_exists env sfile of
                          Inl e \<Rightarrow> None
                        | Inr False \<Rightarrow> None
                        | Inr True \<Rightarrow>
                            (case mixer_load env sfile of Inl e \<Rightarrow> None | Inr h \<Rightarrow> Some h))
                  else None)
      in Inr \<lparr>alert_folder = folder1, sound_file = sfile, cooldown = cd1,
               last_alert_time = 0, sound = snd0, alert_log = []\<rparr>)"

text \<open>
  \<open>can_alert\<close> reads the clock once (\<open>now\<close>) and compares. It returns the instance
  beside the answer, so that what it leaves of the state is part of the model.
\<close>

definition can_alert :: "real \<Rightarrow> alert_system \<Rightarrow> bool \<times> alert_system" where
  "can_alert now s =
     (if now - last_alert_time s \<ge> cooldown s then (True, s) else (False, s))"

text \<open>
  What the outside world answers during one \<open>trigger_alert\<close> call: the clock read in
  \<open>can_alert\<close>, the clock read when \<open>last_alert_time\<close> is set, the two formatted
  \<open>datetime.now()\<close> strings, the outcome of \<open>cv2.imwrite\<close> (its boolean, or an
  exception) and of starting the sound thread.
\<close>

record call_env =
  now_check :: real
  now_set :: real
  stamp_file :: string
  imwrite :: "string \<Rightarrow> ndarray \<Rightarrow> py_exn + bool"
  stamp_record :: string
  thread_start :: "py_exn + unit"

text \<open>
  \<open>str(alert_folder / f"alert_{timestamp}.jpg")\<close> with the separator of a POSIX
  path, for a folder held as \<open>pathlib\<close> prints it (no trailing or doubled
  separator). Joining to the fallback folder \<open>Path(".")\<close> gives the bare file name.
\<close>

definition screenshot_name :: "string \<Rightarrow> string \<Rightarrow> string" where
  "screenshot_name folder ts =
     (if folder = ''.'' then [] else folder @ ''/'') @ ''alert_'' @ ts @ ''.jpg''"

text \<open>The inner \<open>try\<close> around \<open>cv2.imwrite\<close>: the path kept, or \<open>None\<close>.\<close>

definition save_screenshot :: "call_env \<Rightarrow> string \<Rightarrow> ndarray \<Rightarrow> string option" where
  "save_screenshot env path a =
     (case imwrite env path a of
        Inr True \<Rightarrow> Some path
      | Inr False \<Rightarrow> None
      | Inl e \<Rightarrow> None)"

text \<open>Starting the sound thread: its exception is logged and dropped.\<close>

definition play_sound_async :: "call_env \<Rightarrow> alert_system \<Rightarrow> unit" where
  "play_sound_async env s =
     (case sound s of
        None \<Rightarrow> ()
      | Some h \<Rightarrow> (case thread_start env of Inl e \<Rightarrow> () | Inr u \<Rightarrow> u))"

text \<open>The append under the lock, with the cut to the last 100 records.\<close>

definition append_alert :: "alert_info \<Rightarrow> alert_system \<Rightarrow> alert_system" where
  "append_alert info s =
     (let l = alert_log s @ [info]
      in s\<lparr>alert_log := (if length l > 100 then py_slice_from (- 100) l else l)\<rparr>)"

text \<open>
  \<open>trigger_alert\<close>, with \<open>detections\<close> and \<open>confidence_scores\<close> the lists the
  docstring asks for. Every operation inside the outer \<open>try\<close> that can raise has a
  handler of its own, so the outer handler has no branch here.
\<close>

definition trigger_alert ::
  "call_env \<Rightarrow> py_frame \<Rightarrow> string list \<Rightarrow> real list \<Rightarrow> alert_system
     \<Rightarrow> alert_info option \<times> alert_system" where
  "trigger_alert env frame dets confs s =
     (case frame of
        PyNone \<Rightarrow> (None, s)
      | NotNdarray \<Rightarrow> (None, s)
      | Ndarray a \<Rightarrow>
          if nd_size a = 0 then (None, s)
          else if dets = [] then (None, s)
          else (case can_alert (now_check env) s of
                  (False, s0) \<Rightarrow> (None, s0)
                | (True, s0) \<Rightarrow>
                    (let s1 = s0\<lparr>last_alert_time := now_set env\<rparr>;
                         path = screenshot_name (alert_folder s1) (stamp_file env);
                         shot = save_screenshot env path a;
                         u = play_sound_async env s1;
                         info = \<lparr>timestamp = stamp_record env, detections = dets,
                                  confidence_scores = confs, screenshot = shot\<rparr>
                     in (Some info, append_alert info s1))))"

definition get_recent_alerts :: "int \<Rightarrow> alert_system \<Rightarrow> alert_info list \<times> alert_system" where
  "get_recent_alerts n s =
     ((if alert_log s \<noteq> [] then py_slice_from (- n) (alert_log s) else []), s)"

definition clear_alerts :: "alert_system \<Rightarrow> alert_system" where
  "clear_alerts s = s\<lparr>alert_log := []\<rparr>"

definition get_alert_count :: "alert_system \<Rightarrow> nat \<times> alert_system" where
  "get_alert_count s = (length (alert_log s), s)"

subsection \<open>Sequences of calls on one instance\<close>

text \<open>One \<open>trigger_alert\<close> call: its arguments and what the outside world answers.\<close>

record caller =
  c_env :: call_env
  c_frame :: py_frame
  c_dets :: "string list"
  c_confs :: "real list"

definition trigger :: "caller \<Rightarrow> alert_system \<Rightarrow> alert_info option \<times> alert_system" where
  "trigger c s = trigger_alert (c_env c) (c_frame c) (c_dets c) (c_confs c) s"

text \<open>
  The calls of a sequence, each with what it returned and the instance it left.
\<close>

fun trace :: "caller list \<Rightarrow> alert_system \<Rightarrow> (alert_info option \<times> alert_system) list" where
  "trace [] s = []"
| "trace (c # cs) s = trigger c s # trace cs (snd (trigger c s))"

text \<open>
  The acceptance timestamps of a sequence: \<open>last_alert_time\<close> as each call that
  returned a record left it.
\<close>

definition accept_times :: "caller list \<Rightarrow> alert_system \<Rightarrow> real list" where
  "accept_times cs s =
     map (\<lambda>rs. last_alert_time (snd rs)) (filter (\<lambda>rs. fst rs \<noteq> None) (trace cs s))"

text \<open>The clock readings of a sequence of calls, in the order the calls take them.\<close>

definition clock_reads :: "caller list \<Rightarrow> real list" where
  "clock_reads cs = concat (map (\<lambda>c. [now_check (c_env c), now_set (c_env c)]) cs)"

text \<open>The public operations, and a run of them on one instance.\<close>

datatype alert_op =
    Trigger caller
  | CanAlert real
  | GetRecent int
  | ClearAlerts
  | GetCount

fun exec_op :: "alert_op \<Rightarrow> alert_system \<Rightarrow> alert_system" where
  "exec_op (Trigger c) s = snd (trigger c s)"
| "exec_op (CanAlert now) s = snd (can_alert now s)"
| "exec_op (GetRecent n) s = snd (get_recent_alerts n s)"
| "exec_op ClearAlerts s = clear_alerts s"
| "exec_op GetCount s = snd (get_alert_count s)"

fun run_ops :: "alert_op list \<Rightarrow> alert_system \<Rightarrow> alert_system" where
  "run_ops [] s = s"
| "run_ops (x # xs) s = run_ops xs (exec_op x s)"

text \<open>
  The records accepted since the log was last emptied, oldest first: \<open>h\<close> holds
  them up to here, and each operation extends or resets it.
\<close>

fun accepted :: "alert_op list \<Rightarrow> alert_system \<Rightarrow> alert_info list \<Rightarrow> alert_info list" where
  "accepted [] s h = h"
| "accepted (Trigger c # xs) s h =
     accepted xs (snd (trigger c s))
       (case fst (trigger c s) of None \<Rightarrow> h | Some r \<Rightarrow> h @ [r])"
| "accepted (ClearAlerts # xs) s h = accepted xs (clear_alerts s) []"
| "accepted (x # xs) s h = accepted xs (exec_op x s) h"

text \<open>The last \<open>n\<close> elements of a list, in their order.\<close>

definition last_n :: "nat \<Rightarrow> 'a list \<Rightarrow> 'a list" where
  "last_n n xs = drop (length xs - n) xs"

subsection \<open>Concurrent callers\<close>

text \<open>
  \<open>trigger_alert\<close> takes the lock three times: inside \<open>can_alert\<close>, to set
  \<open>last_alert_time\<close>, and to append to the log. The fields of the instance that change
  are touched only under the lock, so a thread's call is three atomic steps, and
  between two of them another thread may run. \<open>progress\<close> is where a thread stands.
\<close>

datatype progress =
    Entered
  | PassedGate ndarray
  | TimeSet ndarray
  | Returned "alert_info option"

fun thread_step :: "caller \<Rightarrow> progress \<Rightarrow> alert_system \<Rightarrow> progress \<times> alert_system" where
  "thread_step c Entered s =
     (case c_frame c of
        PyNone \<Rightarrow> (Returned None, s)
      | NotNdarray \<Rightarrow> (Returned None, s)
      | Ndarray a \<Rightarrow>
          if nd_size a = 0 then (Returned None, s)
          else if c_dets c = [] then (Returned None, s)
          else (case can_alert (now_check (c_env c)) s of
                  (False, s0) \<Rightarrow> (Returned None, s0)
                | (True, s0) \<Rightarrow> (PassedGate a, s0)))"
| "thread_step c (PassedGate a) s =
     (TimeSet a, s\<lparr>last_alert_time := now_set (c_env c)\<rparr>)"
| "thread_step c (TimeSet a) s =
     (let path = screenshot_name (alert_folder s) (stamp_file (c_env c));
          shot = save_screenshot (c_env c) path a;
          u = play_sound_async (c_env c) s;
          info = \<lparr>timestamp = stamp_record (c_env c), detections = c_dets c,
                   confidence_scores = c_confs c, screenshot = shot\<rparr>
      in (Returned (Some info), append_alert info s))"
| "thread_step c (Returned r) s = (Returned r, s)"

text \<open>
  A schedule names, step by step, the thread that runs next. Thread \<open>i\<close> makes the
  call \<open>cs ! i\<close> and stands at \<open>ps ! i\<close>.
\<close>

fun run_schedule ::
  "caller list \<Rightarrow> nat list \<Rightarrow> progress list \<times> alert_system \<Rightarrow> progress list \<times> alert_system" where
  "run_schedule cs [] cfg = cfg"
| "run_schedule cs (i # sched) cfg =
     (if i < length cs \<and> i < length (fst cfg)
      then run_schedule cs sched
             ((fst cfg)[i := fst (thread_step (cs ! i) (fst cfg ! i) (snd cfg))],
              snd (thread_step (cs ! i) (fst cfg ! i) (snd cfg)))
      else run_schedule cs sched cfg)"

subsection \<open>Concrete inputs\<close>

text \<open>
  A small frame, a call at given clock readings whose screenshot write behaves as
  \<open>w\<close> says, and an instance as \<open>AlertSystem()\<close> leaves it when no sound is
  loaded.
\<close>

definition ex_array :: ndarray where
  "ex_array = \<lparr>shape = [2, 2, 3], pixels = replicate 12 0\<rparr>"

definition ex_env :: "real \<Rightarrow> real \<Rightarrow> (string \<Rightarrow> ndarray \<Rightarrow> py_exn + bool) \<Rightarrow> call_env" where
  "ex_env t1 t2 w =
     \<lparr>now_check = t1, now_set = t2, stamp_file = ''20240101_000000'', imwrite = w,
      stamp_record = ''2024-01-01 00:00:00'', thread_start = Inr ()\<rparr>"

definition ex_call :: "real \<Rightarrow> real \<Rightarrow> caller" where
  "ex_call t1 t2 =
     \<lparr>c_env = ex_env t1 t2 (\<lambda>p a. Inr True), c_frame = Ndarray ex_array,
      c_dets = [''pistol''], c_confs = [95 / 100]\<rparr>"

definition ex_system :: alert_system where
  "ex_system =
     \<lparr>alert_folder = ''alerts'', sound_file = ''assets/alert.wav'', cooldown = 5,
      last_alert_time = 0, sound = None, alert_log = []\<rparr>"

text \<open>The record an accepted \<open>ex_call\<close> builds on \<open>ex_system\<close>.\<close>

definition ex_record :: alert_info where
  "ex_record =
     \<lparr>timestamp = ''2024-01-01 00:00:00'', detections = [''pistol''],
      confidence_scores = [95 / 100],
      screenshot = Some ''alerts/alert_20240101_000000.jpg''\<rparr>"

definition ex_init_env :: init_env where
  "ex_init_env =
     \<lparr>pygame_available = False, mkdir = (\<lambda>p. Inr ()), file_exists = (\<lambda>p. Inr False),
      mixer_load = (\<lambda>p. Inl PyException)\<rparr>"

section \<open>detector.py\<close>

text \<open>
  Python's \<open>xs[i]\<close> for an integer \<open>i\<close>: a negative index counts from the end, and
  an index outside the list raises.
\<close>

definition py_index :: "'a list \<Rightarrow> int \<Rightarrow> py_exn + 'a" where
  "py_index xs i =
     (if 0 \<le> i \<and> i < int (length xs) then Inr (xs ! nat i)
      else if i < 0 \<and> - int (length xs) \<le> i then Inr (xs ! nat (int (length xs) + i))
      else Inl PyException)"

type_synonym color = "nat \<times> nat \<times> nat"

text \<open>
  What the YOLO model hands back, as far as \<open>detect\<close> reads it. Each read of a box
  (its corner coordinates converted by \<open>int\<close>, its confidence, its class id) gives
  a value or raises; \<open>result.boxes\<close> is \<open>None\<close> or a sequence of boxes, or reading
  it raises.
\<close>

record yolo_box =
  xyxy :: "py_exn + (int \<times> int \<times> int \<times> int)"
  conf :: "py_exn + real"
  cls :: "py_exn + int"

record yolo_result =
  boxes :: "py_exn + yolo_box list option"

text \<open>
  The loaded model: its \<open>names\<close> dictionary when it has that attribute, and the
  inference call \<open>self.model(frame, conf=..., device='cpu', verbose=False)\<close>, which
  returns the results or raises.
\<close>

record yolo =
  names :: "(int \<Rightarrow> string option) option"
  infer :: "ndarray \<Rightarrow> real \<Rightarrow> py_exn + yolo_result list"

text \<open>
  The drawing calls of OpenCV and the string formatting \<open>detect\<close> uses, taken as
  parameters: \<open>rectangle img pt1 pt2 color thickness\<close>, \<open>getTextSize label\<close> (the
  width and height of the label), \<open>putText img label org\<close>, the label
  \<open>f"{class_name.upper()}: {confidence:.2%}"\<close>, the name \<open>f"Object_{class_id}"\<close>
  and \<open>str.lower\<close>.
\<close>

record cv2_env =
  rectangle :: "ndarray \<Rightarrow> int \<times> int \<Rightarrow> int \<times> int \<Rightarrow> color \<Rightarrow> int \<Rightarrow> py_exn + ndarray"
  getTextSize :: "string \<Rightarrow> py_exn + (int \<times> int)"
  putText :: "ndarray \<Rightarrow> string \<Rightarrow> int \<times> int \<Rightarrow> py_exn + ndarray"
  fmt_label :: "string \<Rightarrow> real \<Rightarrow> string"
  fmt_object :: "int \<Rightarrow> string"
  str_lower :: "string \<Rightarrow> string"

text \<open>The fields of a \<open>WeaponDetector\<close> that \<open>detect\<close> reads or writes.\<close>

record detector =
  confidence_threshold :: real
  model :: "yolo option"
  model_loaded :: bool
  class_names :: "string list"
  colors :: "string \<Rightarrow> color option"
  total_detections :: int
  frame_count :: int
  error_count :: int

text \<open>\<open>np.zeros((480, 640, 3), dtype=np.uint8)\<close>.\<close>

definition zeros_frame :: ndarray where
  "zeros_frame = \<lparr>shape = [480, 640, 3], pixels = replicate (480 * 640 * 3) 0\<rparr>"

text \<open>
  The local variables of \<open>detect\<close> that the loops update, with
  \<open>self.total_detections\<close>. An exception inside a \<open>try\<close> leaves them as they are at
  the raise, so a body that raises returns them with the exception (\<open>Inl\<close>).
\<close>

record loop_state =
  l_annotated :: ndarray
  l_detections :: "string list"
  l_scores :: "real list"
  l_has :: bool
  l_total :: int

definition class_name_of :: "cv2_env \<Rightarrow> yolo \<Rightarrow> string list \<Rightarrow> int \<Rightarrow> py_exn + string" where
  "class_name_of X m cns class_id =
     (case (case names m of None \<Rightarrow> None | Some nm \<Rightarrow> nm class_id) of
        Some n \<Rightarrow> Inr n
      | None \<Rightarrow>
          if class_id < int (length cns) then py_index cns class_id
          else Inr (fmt_object X class_id))"

definition color_of :: "cv2_env \<Rightarrow> detector \<Rightarrow> string \<Rightarrow> color" where
  "color_of X d cname =
     (case colors d (str_lower X cname) of
        Some c \<Rightarrow> c
      | None \<Rightarrow> (case colors d ''default'' of Some c \<Rightarrow> c | None \<Rightarrow> (0, 255, 255)))"

text \<open>The three drawing calls for one box, from the bounding box to the label text.\<close>

definition draw_box ::
  "cv2_env \<Rightarrow> int \<Rightarrow> int \<times> int \<times> int \<times> int \<Rightarrow> string \<Rightarrow> real \<Rightarrow> color \<Rightarrow> loop_state
     \<Rightarrow> (py_exn \<times> loop_state) + loop_state" where
  "draw_box X w xy cname confidence col st =
     (case xy of (x1, y1, x2, y2) \<Rightarrow>
        (case rectangle X (l_annotated st) (x1, y1) (x2, y2) col 3 of
           Inl e \<Rightarrow> Inl (e, st)
         | Inr img1 \<Rightarrow>
             (let st1 = st\<lparr>l_annotated := img1\<rparr>;
                  label = fmt_label X cname confidence
              in case getTextSize X label of
                   Inl e \<Rightarrow> Inl (e, st1)
                 | Inr (label_w, label_h) \<Rightarrow>
                     (let label_y = max (label_h + 10) y1
                      in case rectangle X img1 (x1, label_y - label_h - 10)
                                (min (x1 + label_w) w, label_y) col (- 1) of
                           Inl e \<Rightarrow> Inl (e, st1)
                         | Inr img2 \<Rightarrow>
                             (case putText X img2 label (x1, label_y - 5) of
                                Inl e \<Rightarrow> Inl (e, st1\<lparr>l_annotated := img2\<rparr>)
                              | Inr img3 \<Rightarrow> Inr (st1\<lparr>l_annotated := img3\<rparr>))))))"

text \<open>The body of the \<open>try\<close> inside \<open>for box in boxes\<close>.\<close>

definition box_body ::
  "cv2_env \<Rightarrow> yolo \<Rightarrow> detector \<Rightarrow> ndarray \<Rightarrow> yolo_box \<Rightarrow> loop_state
     \<Rightarrow> (py_exn \<times> loop_state) + loop_state" where
  "box_body X m d frame b st =
     (case xyxy b of
        Inl e \<Rightarrow> Inl (e, st)
      | Inr (x1, y1, x2, y2) \<Rightarrow>
          (case shape frame of
             h # w # rest \<Rightarrow>
               (case conf b of
                  Inl e \<Rightarrow> Inl (e, st)
                | Inr confidence \<Rightarrow>
                    (case cls b of
                       Inl e \<Rightarrow> Inl (e, st)
                     | Inr class_id \<Rightarrow>
                         (case class_name_of X m (class_names d) class_id of
                            Inl e \<Rightarrow> Inl (e, st)
                          | Inr cname \<Rightarrow>
                              draw_box X (int w)
                                (max 0 x1, max 0 y1, min (int w) x2, min (int h) y2)
                                cname confidence (color_of X d cname)
                                (st\<lparr>l_detections := l_detections st @ [cname],
                                    l_scores := l_scores st @ [confidence],
                                    l_total := l_total st + 1\<rparr>))))
           | _ \<Rightarrow> Inl (PyException, st)))"

text \<open>\<open>except Exception as box_error: ... continue\<close>.\<close>

definition process_box ::
  "cv2_env \<Rightarrow> yolo \<Rightarrow> detector \<Rightarrow> ndarray \<Rightarrow> loop_state \<Rightarrow> yolo_box \<Rightarrow> loop_state" where
  "process_box X m d frame st b =
     (case box_body X m d frame b st of Inl (e, st1) \<Rightarrow> st1 | Inr st1 \<Rightarrow> st1)"

text \<open>The body of the \<open>try\<close> inside \<open>for result in results\<close>, and its handler.\<close>

definition result_body ::
  "cv2_env \<Rightarrow> yolo \<Rightarrow> detector \<Rightarrow> ndarray \<Rightarrow> yolo_result \<Rightarrow> loop_state
     \<Rightarrow> (py_exn \<times> loop_state) + loop_state" where
  "result_body X m d frame r st =
     (case boxes r of
        Inl e \<Rightarrow> Inl (e, st)
      | Inr None \<Rightarrow> Inr st
      | Inr (Some bs) \<Rightarrow>
          if length bs = 0 then Inr st
          else Inr (foldl (process_box X m d frame) (st\<lparr>l_has := True\<rparr>) bs))"

definition process_result ::
  "cv2_env \<Rightarrow> yolo \<Rightarrow> detector \<Rightarrow> ndarray \<Rightarrow> loop_state \<Rightarrow> yolo_result \<Rightarrow> loop_state" where
  "process_result X m d frame st r =
     (case result_body X m d frame r st of Inl (e, st1) \<Rightarrow> st1 | Inr st1 \<Rightarrow> st1)"

text \<open>
  The body of the outer \<open>try\<close>: inference, the loop over the results, and the red
  border when something was detected.
\<close>

definition detect_body ::
  "cv2_env \<Rightarrow> yolo \<Rightarrow> detector \<Rightarrow> ndarray \<Rightarrow> loop_state
     \<Rightarrow> (py_exn \<times> loop_state) + loop_state" where
  "detect_body X m d frame st0 =
     (case infer m frame (confidence_threshold d) of
        Inl e \<Rightarrow> Inl (e, st0)
      | Inr results \<Rightarrow>
          (let st = foldl (process_result X m d frame) st0 results
           in if l_has st
              then (case shape (l_annotated st) of
                      h # w # rest \<Rightarrow>
                        (case rectangle X (l_annotated st) (0, 0) (int w - 1, int h - 1)
                                (0, 0, 255) 10 of
                           Inl e \<Rightarrow> Inl (e, st)
                         | Inr img \<Rightarrow> Inr (st\<lparr>l_annotated := img\<rparr>))
                    | _ \<Rightarrow> Inl (PyException, st))
              else Inr st))"

text \<open>
  \<open>detect\<close>: the returned tuple and the detector as the call leaves it, or the
  exception that leaves the method (\<open>Inl\<close>).
\<close>

definition detect ::
  "cv2_env \<Rightarrow> py_frame \<Rightarrow> detector
     \<Rightarrow> py_exn + ((ndarray \<times> string list \<times> real list \<times> bool) \<times> detector)" where
  "detect X frame d =
     (case frame of
        PyNone \<Rightarrow> Inr ((zeros_frame, [], [], False), d)
      | NotNdarray \<Rightarrow> Inr ((zeros_frame, [], [], False), d)
      | Ndarray a \<Rightarrow>
          if nd_size a = 0 then Inr ((zeros_frame, [], [], False), d)
          else (case (if model_loaded d then model d else None) of
                  None \<Rightarrow> Inr ((a, [], [], False), d)
                | Some m \<Rightarrow>
                    (let d1 = d\<lparr>frame_count := frame_count d + 1\<rparr>;
                         st0 = \<lparr>l_annotated = a, l_detections = [], l_scores = [],
                                 l_has = False, l_total = total_detections d1\<rparr>
                     in case detect_body X m d1 a st0 of
                          Inl (e, st) \<Rightarrow>
                            Inr ((a, [], [], False),
                                 d1\<lparr>total_detections := l_total st,
                                     error_count := error_count d1 + 1\<rparr>)
                        | Inr st \<Rightarrow>
                            Inr ((l_annotated st, l_detections st, l_scores st, l_has st),
                                 d1\<lparr>total_detections := l_total st\<rparr>))))"

subsection \<open>Concrete inputs\<close>

text \<open>
  Drawing calls that succeed and leave the image as it is, a model whose inference
  raises, a model that reports one box whose confidence cannot be read, and a
  detector around a model.
\<close>

definition ex_cv2 :: cv2_env where
  "ex_cv2 =
     \<lparr>rectangle = (\<lambda>img p q c t. Inr img), getTextSize = (\<lambda>l. Inr (40, 12)),
      putText = (\<lambda>img l p. Inr img), fmt_label = (\<lambda>n c. n), fmt_object = (\<lambda>i. ''Object''),
      str_lower = (\<lambda>n. n)\<rparr>"



definition ex_bad_box :: yolo_box where
  "ex_bad_box = \<lparr>xyxy = Inr (0, 0, 1, 1), conf = Inl PyException, cls = Inr 0\<rparr>"

definition ex_bad_box_model :: yolo where
  "ex_bad_box_model =
     \<lparr>names = None, infer = (\<lambda>a c. Inr [\<lparr>boxes = Inr (Some [ex_bad_box])\<rparr>])\<rparr>"





definition ex_detector :: "yolo \<Rightarrow> detector" where
  "ex_detector m =
     \<lparr>confidence_threshold = 1 / 2, model = Some m, model_loaded = True,
      class_names = [''pistol'', ''knife''],
      colors = [''pistol'' \<mapsto> (0, 0, 255), ''knife'' \<mapsto> (0, 165, 255),
                ''default'' \<mapsto> (0, 255, 255)],
      total_detections = 0, frame_count = 0, error_count = 0\<rparr>"

section \<open>Properties of the alert system\<close>

subsection \<open>What one call does\<close>

lemma trigger_cases:
  "trigger c s = (None, s) \<or>
   (\<exists>a info. c_frame c = Ndarray a \<and> nd_size a \<noteq> 0 \<and> c_dets c \<noteq> [] \<and>
      cooldown s \<le> now_check (c_env c) - last_alert_time s \<and>
      trigger c s = (Some info, append_alert info (s\<lparr>last_alert_time := now_set (c_env c)\<rparr>)))"
  by (cases "c_frame c") (auto simp: trigger_def trigger_alert_def can_alert_def Let_def)

lemma append_alert_fields [simp]:
  "cooldown (append_alert r s) = cooldown s"
  "last_alert_time (append_alert r s) = last_alert_time s"
  "alert_folder (append_alert r s) = alert_folder s"
  by (simp_all add: append_alert_def Let_def)

lemma trigger_cooldown [simp]: "cooldown (snd (trigger c s)) = cooldown s"
  using trigger_cases [of c s] by auto

lemma trigger_None_state: "fst (trigger c s) = None \<Longrightarrow> snd (trigger c s) = s"
  using trigger_cases [of c s] by auto

lemma trigger_Some_time:
  "fst (trigger c s) \<noteq> None \<Longrightarrow>
     last_alert_time (snd (trigger c s)) = now_set (c_env c) \<and>
     cooldown s \<le> now_check (c_env c) - last_alert_time s"
  using trigger_cases [of c s] by auto

lemma accept_times_Cons:
  "accept_times (c # cs) s =
     (if fst (trigger c s) \<noteq> None then [now_set (c_env c)] else []) @
     accept_times cs (snd (trigger c s))"
  by (simp add: accept_times_def trigger_Some_time)

lemma accept_times_Nil [simp]: "accept_times [] s = []"
  by (simp add: accept_times_def)

lemma clock_reads_Cons:
  "clock_reads (c # cs) = now_check (c_env c) # now_set (c_env c) # clock_reads cs"
  by (simp add: clock_reads_def)

lemma accept_times_lower:
  "sorted (clock_reads cs) \<Longrightarrow> \<forall>x \<in> set (clock_reads cs). last_alert_time s \<le> x \<Longrightarrow>
   \<forall>t \<in> set (accept_times cs s). last_alert_time s + cooldown s \<le> t"
proof (induction cs arbitrary: s)
  case Nil
  then show ?case by simp
next
  case (Cons c cs)
  let ?s' = "snd (trigger c s)"
  from Cons.prems have srt: "sorted (clock_reads cs)"
    and le1: "now_check (c_env c) \<le> now_set (c_env c)"
    and le2: "\<forall>x \<in> set (clock_reads cs). now_set (c_env c) \<le> x"
    and lo: "last_alert_time s \<le> now_check (c_env c)"
    and lo2: "\<forall>x \<in> set (clock_reads cs). last_alert_time s \<le> x"
    by (auto simp: clock_reads_Cons)
  show ?case
  proof (cases "fst (trigger c s) = None")
    case True
    then have "?s' = s" by (rule trigger_None_state)
    with True Cons.IH [OF srt, of s] lo2 show ?thesis
      by (simp add: accept_times_Cons)
  next
    case False
    then have t: "last_alert_time ?s' = now_set (c_env c)"
      and g: "cooldown s \<le> now_check (c_env c) - last_alert_time s"
      using trigger_Some_time by blast+
    from Cons.IH [OF srt, of ?s'] le2 t
    have "\<forall>t \<in> set (accept_times cs ?s'). now_set (c_env c) + cooldown s \<le> t"
      by simp
    with False g le1 lo show ?thesis
      by (fastforce simp: accept_times_Cons)
  qed
qed

lemma accept_times_spaced:
  "sorted (clock_reads cs) \<Longrightarrow>
   sorted_wrt (\<lambda>t u. t + cooldown s \<le> u) (accept_times cs s)"
proof (induction cs arbitrary: s)
  case Nil
  then show ?case by simp
next
  case (Cons c cs)
  let ?s' = "snd (trigger c s)"
  from Cons.prems have srt: "sorted (clock_reads cs)"
    and le2: "\<forall>x \<in> set (clock_reads cs). now_set (c_env c) \<le> x"
    by (auto simp: clock_reads_Cons)
  have ih: "sorted_wrt (\<lambda>t u. t + cooldown s \<le> u) (accept_times cs ?s')"
    using Cons.IH [OF srt, of ?s'] by simp
  show ?case
  proof (cases "fst (trigger c s) = None")
    case True
    with ih show ?thesis by (simp add: accept_times_Cons)
  next
    case False
    then have t: "last_alert_time ?s' = now_set (c_env c)"
      using trigger_Some_time by blast
    from accept_times_lower [OF srt, of ?s'] le2 t
    have "\<forall>t \<in> set (accept_times cs ?s'). now_set (c_env c) + cooldown s \<le> t"
      by simp
    with False ih show ?thesis by (simp add: accept_times_Cons)
  qed
qed

lemma ex_call_accepts:
  "cooldown s \<le> t1 - last_alert_time s \<Longrightarrow>
   fst (trigger (ex_call t1 t2) s) \<noteq> None \<and>
   last_alert_time (snd (trigger (ex_call t1 t2) s)) = t2 \<and>
   cooldown (snd (trigger (ex_call t1 t2) s)) = cooldown s"
  by (simp add: trigger_def trigger_alert_def can_alert_def ex_call_def ex_env_def
      ex_array_def nd_size_def Let_def)

lemma ex_call_rejects:
  "\<not> cooldown s \<le> t1 - last_alert_time s \<Longrightarrow> trigger (ex_call t1 t2) s = (None, s)"
  by (simp add: trigger_def trigger_alert_def can_alert_def ex_call_def ex_env_def
      ex_array_def nd_size_def Let_def)

lemma ex_call_clock [simp]:
  "now_check (c_env (ex_call t1 t2)) = t1" "now_set (c_env (ex_call t1 t2)) = t2"
  by (simp_all add: ex_call_def ex_env_def)

lemma ex_accept_times:
  "accept_times [ex_call 100 100, ex_call 102 102, ex_call 106 106] ex_system = [100, 106]"
proof -
  let ?s1 = "snd (trigger (ex_call 100 100) ex_system)"
  have c0: "cooldown ex_system = 5" and l0: "last_alert_time ex_system = 0"
    by (simp_all add: ex_system_def)
  have a1: "fst (trigger (ex_call 100 100) ex_system) \<noteq> None"
    and l1: "last_alert_time ?s1 = 100" and c1: "cooldown ?s1 = 5"
    using ex_call_accepts [of ex_system 100 100] by (simp_all add: c0 l0)
  have r2: "trigger (ex_call 102 102) ?s1 = (None, ?s1)"
    by (rule ex_call_rejects) (simp add: l1 c0)
  have a3: "fst (trigger (ex_call 106 106) ?s1) \<noteq> None"
    using ex_call_accepts [of ?s1 106 106] by (simp add: l1 c0)
  show ?thesis
    by (simp add: accept_times_Cons a1 r2 a3)
qed

subsection \<open>Spacing of accepted alerts\<close>

text \<open>
  C1. Take any sequence of \<open>trigger_alert\<close> calls on one instance, the clock never
  running backwards over the readings the calls take. Any two calls that return a
  record have acceptance timestamps (the values they leave in \<open>last_alert_time\<close>) at
  least \<open>cooldown\<close> apart. A call that returns a record has set
  \<open>last_alert_time\<close> to its second clock reading, and it passed the gate: its first
  reading minus the \<open>last_alert_time\<close> it found was at least \<open>cooldown\<close>.
\<close>

theorem accepted_alerts_spaced_by_cooldown:
  assumes "sorted (clock_reads cs)"
  shows "(\<forall>i j. i < j \<and> j < length (accept_times cs s) \<longrightarrow>
            accept_times cs s ! i + cooldown s \<le> accept_times cs s ! j) \<and>
         (\<forall>c s0 r s1. trigger c s0 = (Some r, s1) \<longrightarrow>
            last_alert_time s1 = now_set (c_env c) \<and>
            cooldown s0 \<le> now_check (c_env c) - last_alert_time s0)"
proof (intro conjI allI impI)
  fix i j
  assume "i < j \<and> j < length (accept_times cs s)"
  with accept_times_spaced [OF assms, of s]
  show "accept_times cs s ! i + cooldown s \<le> accept_times cs s ! j"
    by (simp add: sorted_wrt_iff_nth_less)
next
  fix c s0 r s1
  assume "trigger c s0 = (Some r, s1)"
  with trigger_Some_time [of c s0]
  show "last_alert_time s1 = now_set (c_env c)"
    and "cooldown s0 \<le> now_check (c_env c) - last_alert_time s0"
    by simp_all
qed

theorem accepted_alerts_spaced_by_cooldown_witness:
  "sorted (clock_reads [ex_call 100 100, ex_call 102 102, ex_call 106 106]) \<and>
   accept_times [ex_call 100 100, ex_call 102 102, ex_call 106 106] ex_system = [100, 106] \<and>
   accept_times [ex_call 100 100, ex_call 102 102, ex_call 106 106] ex_system ! 0
     + cooldown ex_system
     \<le> accept_times [ex_call 100 100, ex_call 102 102, ex_call 106 106] ex_system ! 1"
proof -
  let ?cs = "[ex_call 100 100, ex_call 102 102, ex_call 106 106]"
  have h: "sorted (clock_reads ?cs)"
    by (simp add: clock_reads_def)
  have "(0::nat) < 1 \<and> 1 < length (accept_times ?cs ex_system)"
    by (simp add: ex_accept_times)
  with accepted_alerts_spaced_by_cooldown [OF h, of ex_system]
  have "accept_times ?cs ex_system ! 0 + cooldown ex_system \<le> accept_times ?cs ex_system ! 1"
    by blast
  with h ex_accept_times show ?thesis by simp
qed

subsection \<open>Rejected inputs\<close>

text \<open>
  C5. In every state and for every answer of the outside world, \<open>trigger_alert\<close>
  with an empty \<open>detections\<close> list, or with a frame that is \<open>None\<close>, not an array,
  or an array of size zero, returns \<open>None\<close> and leaves the instance as it was:
  \<open>last_alert_time\<close> and the log are unchanged.
\<close>

theorem trigger_alert_rejects_invalid_input:
  assumes "dets = [] \<or> frame = PyNone \<or> frame = NotNdarray \<or>
           (\<exists>a. frame = Ndarray a \<and> nd_size a = 0)"
  shows "trigger_alert env frame dets confs s = (None, s)"
  using assms by (cases frame) (auto simp: trigger_alert_def)

theorem trigger_alert_rejects_invalid_input_witness:
  "cooldown ex_system \<le> 100 - last_alert_time ex_system \<and>
   trigger_alert (ex_env 100 100 (\<lambda>p a. Inr True)) (Ndarray ex_array) [] [] ex_system
     = (None, ex_system) \<and>
   trigger_alert (ex_env 100 100 (\<lambda>p a. Inr True)) PyNone [''pistol''] [95 / 100] ex_system
     = (None, ex_system)"
proof -
  have g: "cooldown ex_system \<le> 100 - last_alert_time ex_system"
    by (simp add: ex_system_def)
  have h1: "([]::string list) = [] \<or> Ndarray ex_array = PyNone \<or> Ndarray ex_array = NotNdarray \<or>
           (\<exists>a. Ndarray ex_array = Ndarray a \<and> nd_size a = 0)"
    by simp
  have h2: "[''pistol''] = [] \<or> PyNone = PyNone \<or> PyNone = NotNdarray \<or>
           (\<exists>a. PyNone = Ndarray a \<and> nd_size a = 0)"
    by simp
  show ?thesis
    using g trigger_alert_rejects_invalid_input [OF h1]
      trigger_alert_rejects_invalid_input [OF h2]
    by simp
qed

subsection \<open>Construction\<close>

lemma get_recent_state [simp]: "snd (get_recent_alerts n s) = s"
  by (simp add: get_recent_alerts_def)

lemma get_count_state [simp]: "snd (get_alert_count s) = s"
  by (simp add: get_alert_count_def)

lemma can_alert_state [simp]: "snd (can_alert now s) = s"
  by (simp add: can_alert_def)

lemma exec_op_cooldown [simp]: "cooldown (exec_op x s) = cooldown s"
  by (cases x) (simp_all add: clear_alerts_def)

lemma run_ops_cooldown: "cooldown (run_ops xs s) = cooldown s"
  by (induction xs arbitrary: s) simp_all

text \<open>
  C9. Construction returns an instance for every cooldown argument, whatever
  \<open>mkdir\<close> and the sound set-up do. The stored cooldown is 5 when the argument is
  negative and the argument otherwise, so it is never negative, and no run of the
  public operations changes it.
\<close>

theorem init_total_clamps_cooldown:
  "\<exists>s. init env folder sfile cd = Inr s \<and>
        cooldown s = (if cd < 0 then 5 else cd) \<and>
        0 \<le> cooldown s \<and>
        last_alert_time s = 0 \<and> alert_log s = [] \<and>
        (\<forall>xs. cooldown (run_ops xs s) = cooldown s)"
  by (simp add: init_def Let_def run_ops_cooldown)

theorem init_total_clamps_cooldown_witness:
  "\<exists>s. init ex_init_env ''alerts'' ''assets/alert.wav'' (- 3) = Inr s \<and> cooldown s = 5"
  using init_total_clamps_cooldown [of ex_init_env "''alerts''" "''assets/alert.wav''" "- 3"]
  by auto

subsection \<open>The gate query\<close>

lemma trigger_Some_eq:
  "trigger c s = (Some r, s1) \<Longrightarrow>
     last_alert_time s1 = now_set (c_env c) \<and>
     cooldown s \<le> now_check (c_env c) - last_alert_time s"
  using trigger_Some_time [of c s] by simp

text \<open>
  C10. \<open>can_alert\<close> answers true exactly when the clock reading minus
  \<open>last_alert_time\<close> is at least \<open>cooldown\<close>; it leaves the instance as it was, so a
  second query at the same reading gives the same answer. The cooldown is consumed
  in \<open>trigger_alert\<close>: a call that returns a record has set \<open>last_alert_time\<close>.
\<close>

theorem can_alert_is_pure_query:
  "fst (can_alert now s) = (cooldown s \<le> now - last_alert_time s) \<and>
   snd (can_alert now s) = s \<and>
   can_alert now (snd (can_alert now s)) = can_alert now s \<and>
   (\<forall>c r s1. trigger c s = (Some r, s1) \<longrightarrow>
      last_alert_time s1 = now_set (c_env c) \<and>
      cooldown s \<le> now_check (c_env c) - last_alert_time s)"
proof -
  have "\<forall>c r s1. trigger c s = (Some r, s1) \<longrightarrow>
      last_alert_time s1 = now_set (c_env c) \<and>
      cooldown s \<le> now_check (c_env c) - last_alert_time s"
    using trigger_Some_eq by blast
  then show ?thesis by (simp add: can_alert_def)
qed

lemma ex_call_trigger:
  "cooldown s \<le> t1 - last_alert_time s \<Longrightarrow> alert_folder s = ''alerts'' \<Longrightarrow>
   trigger (ex_call t1 t2) s = (Some ex_record, append_alert ex_record (s\<lparr>last_alert_time := t2\<rparr>))"
  by (simp add: trigger_def trigger_alert_def can_alert_def ex_call_def ex_env_def
      ex_array_def nd_size_def Let_def ex_record_def save_screenshot_def screenshot_name_def)

theorem can_alert_is_pure_query_witness:
  "fst (can_alert 100 ex_system) \<and> snd (can_alert 100 ex_system) = ex_system \<and>
   trigger (ex_call 100 101) ex_system
     = (Some ex_record, append_alert ex_record (ex_system\<lparr>last_alert_time := 101\<rparr>)) \<and>
   last_alert_time (append_alert ex_record (ex_system\<lparr>last_alert_time := 101\<rparr>)) = 101"
proof -
  have t: "trigger (ex_call 100 101) ex_system
     = (Some ex_record, append_alert ex_record (ex_system\<lparr>last_alert_time := 101\<rparr>))"
    by (rule ex_call_trigger) (simp_all add: ex_system_def)
  from can_alert_is_pure_query [of 100 ex_system] t
  have "last_alert_time (append_alert ex_record (ex_system\<lparr>last_alert_time := 101\<rparr>))
          = now_set (c_env (ex_call 100 101))"
    and "fst (can_alert 100 ex_system) = (cooldown ex_system \<le> 100 - last_alert_time ex_system)"
    and "snd (can_alert 100 ex_system) = ex_system"
    by blast+
  with t show ?thesis by (simp add: ex_system_def)
qed

subsection \<open>Screenshot failure\<close>

text \<open>
  C6. Let a call pass validation and the gate, and compare an outside world where
  \<open>cv2.imwrite\<close> returns true with one that differs only in that the write returns
  false or raises. Both calls return a record and leave \<open>last_alert_time\<close> at the
  same clock reading; the failing call's record is the other one with
  \<open>screenshot = None\<close>, and the two logs have the same length and the same records
  up to that last one.
\<close>

theorem screenshot_failure_keeps_alert:
  assumes "frame = Ndarray a" and "nd_size a \<noteq> 0" and "dets \<noteq> []"
    and "cooldown s \<le> now_check env - last_alert_time s"
    and "path = screenshot_name (alert_folder s) (stamp_file env)"
    and "imwrite env path a = Inr True"
    and "w path a = Inr False \<or> w path a = Inl e"
    and "r = \<lparr>timestamp = stamp_record env, detections = dets,
               confidence_scores = confs, screenshot = Some path\<rparr>"
    and "s1 = s\<lparr>last_alert_time := now_set env\<rparr>"
  shows "trigger_alert env frame dets confs s = (Some r, append_alert r s1) \<and>
         trigger_alert (env\<lparr>imwrite := w\<rparr>) frame dets confs s
           = (Some (r\<lparr>screenshot := None\<rparr>), append_alert (r\<lparr>screenshot := None\<rparr>) s1) \<and>
         last_alert_time (append_alert (r\<lparr>screenshot := None\<rparr>) s1)
           = last_alert_time (append_alert r s1) \<and>
         length (alert_log (append_alert (r\<lparr>screenshot := None\<rparr>) s1))
           = length (alert_log (append_alert r s1)) \<and>
         butlast (alert_log (append_alert (r\<lparr>screenshot := None\<rparr>) s1))
           = butlast (alert_log (append_alert r s1)) \<and>
         last (alert_log (append_alert (r\<lparr>screenshot := None\<rparr>) s1)) = r\<lparr>screenshot := None\<rparr> \<and>
         last (alert_log (append_alert r s1)) = r"
proof -
  have ok: "trigger_alert env frame dets confs s = (Some r, append_alert r s1)"
    using assms by (simp add: trigger_alert_def can_alert_def Let_def save_screenshot_def)
  have bad: "trigger_alert (env\<lparr>imwrite := w\<rparr>) frame dets confs s
           = (Some (r\<lparr>screenshot := None\<rparr>), append_alert (r\<lparr>screenshot := None\<rparr>) s1)"
    using assms
    by (auto simp: trigger_alert_def can_alert_def Let_def save_screenshot_def
        play_sound_async_def append_alert_def)
  have sl: "\<And>x. py_slice_from (- 100) (alert_log s @ [x])
             = drop (length (alert_log s) + 1 - 100) (alert_log s) @ [x]"
    by (simp add: py_slice_from_def nat_diff_distrib')
  have shape: "\<And>x. alert_log (append_alert x s1)
      = (if 100 < length (alert_log s) + 1
         then drop (length (alert_log s) + 1 - 100) (alert_log s) else alert_log s) @ [x]"
    using assms by (simp add: append_alert_def Let_def sl)
  show ?thesis
    using ok bad by (simp add: shape)
qed

theorem screenshot_failure_keeps_alert_witness:
  "trigger_alert (ex_env 100 101 (\<lambda>p a. Inr True)) (Ndarray ex_array) [''pistol''] [95 / 100]
     ex_system
     = (Some ex_record, append_alert ex_record (ex_system\<lparr>last_alert_time := 101\<rparr>)) \<and>
   trigger_alert (ex_env 100 101 (\<lambda>p a. Inl PyException)) (Ndarray ex_array) [''pistol'']
     [95 / 100] ex_system
     = (Some (ex_record\<lparr>screenshot := None\<rparr>),
        append_alert (ex_record\<lparr>screenshot := None\<rparr>) (ex_system\<lparr>last_alert_time := 101\<rparr>))"
proof -
  let ?env = "ex_env 100 101 (\<lambda>p a. Inr True)"
  let ?w = "\<lambda>(p::string) (a::ndarray). (Inl PyException :: py_exn + bool)"
  let ?path = "''alerts/alert_20240101_000000.jpg''"
  have e: "?env\<lparr>imwrite := ?w\<rparr> = ex_env 100 101 ?w"
    by (simp add: ex_env_def)
  have h1: "Ndarray ex_array = Ndarray ex_array" by simp
  have h2: "nd_size ex_array \<noteq> 0" by (simp add: nd_size_def ex_array_def)
  have h3: "[''pistol''] \<noteq> []" by simp
  have h4: "cooldown ex_system \<le> now_check ?env - last_alert_time ex_system"
    by (simp add: ex_system_def ex_env_def)
  have h5: "?path = screenshot_name (alert_folder ex_system) (stamp_file ?env)"
    by (simp add: screenshot_name_def ex_system_def ex_env_def)
  have h6: "imwrite ?env ?path ex_array = Inr True" by (simp add: ex_env_def)
  have h7: "?w ?path ex_array = Inr False \<or> ?w ?path ex_array = Inl PyException" by simp
  have h8: "ex_record = \<lparr>timestamp = stamp_record ?env, detections = [''pistol''],
               confidence_scores = [95 / 100], screenshot = Some ?path\<rparr>"
    by (simp add: ex_record_def ex_env_def)
  have h9: "ex_system\<lparr>last_alert_time := 101\<rparr> = ex_system\<lparr>last_alert_time := now_set ?env\<rparr>"
    by (simp add: ex_env_def)
  show ?thesis
    using screenshot_failure_keeps_alert [OF h1 h2 h3 h4 h5 h6 h7 h8 h9] e by simp
qed

subsection \<open>Two calls and the cooldown\<close>

lemma run_triggers_Cons [simp]:
  "run_ops (map Trigger (c # cs)) s = run_ops (map Trigger cs) (snd (trigger c s))"
  by simp


lemma run_triggers_cooldown [simp]: "cooldown (run_ops (map Trigger cs) s) = cooldown s"
  by (rule run_ops_cooldown)

lemma alert_log_append_alert:
  "alert_log (append_alert r s) = last_n 100 (alert_log s @ [r])"
  by (simp add: append_alert_def Let_def py_slice_from_def last_n_def nat_diff_distrib')

lemma last_append_alert [simp]:
  "alert_log (append_alert r s) \<noteq> []" "last (alert_log (append_alert r s)) = r"
  by (simp_all add: alert_log_append_alert last_n_def)





subsection \<open>The bounded log\<close>

lemma last_n_length: "length (last_n n xs) \<le> n"
  by (simp add: last_n_def)

lemma last_n_id: "length xs \<le> n \<Longrightarrow> last_n n xs = xs"
  by (simp add: last_n_def)

lemma last_n_snoc: "0 < n \<Longrightarrow> last_n n (last_n n h @ [r]) = last_n n (h @ [r])"
  by (cases "length h \<le> n") (simp_all add: last_n_def Suc_diff_le)

lemma exec_op_log:
  assumes "alert_log s = last_n 100 h"
  shows "alert_log (exec_op x s) = last_n 100 (accepted [x] s h)"
proof (cases x)
  case (Trigger c)
  from trigger_cases [of c s] show ?thesis
  proof
    assume "trigger c s = (None, s)"
    with Trigger assms show ?thesis by simp
  next
    assume "\<exists>a info. c_frame c = Ndarray a \<and> nd_size a \<noteq> 0 \<and> c_dets c \<noteq> [] \<and>
      cooldown s \<le> now_check (c_env c) - last_alert_time s \<and>
      trigger c s = (Some info, append_alert info (s\<lparr>last_alert_time := now_set (c_env c)\<rparr>))"
    then obtain info where
      "trigger c s = (Some info, append_alert info (s\<lparr>last_alert_time := now_set (c_env c)\<rparr>))"
      by blast
    with Trigger assms show ?thesis
      by (simp add: alert_log_append_alert last_n_snoc)
  qed
next
  case (CanAlert now)
  with assms show ?thesis by simp
next
  case (GetRecent n)
  with assms show ?thesis by simp
next
  case ClearAlerts
  then show ?thesis by (simp add: clear_alerts_def last_n_def)
next
  case GetCount
  with assms show ?thesis by simp
qed

lemma accepted_Cons: "accepted (x # xs) s h = accepted xs (exec_op x s) (accepted [x] s h)"
  by (cases x) simp_all

lemma run_ops_log:
  "alert_log s = last_n 100 h \<Longrightarrow> alert_log (run_ops xs s) = last_n 100 (accepted xs s h)"
proof (induction xs arbitrary: s h)
  case Nil
  then show ?case by simp
next
  case (Cons x xs)
  from Cons.prems have "alert_log (exec_op x s) = last_n 100 (accepted [x] s h)"
    by (rule exec_op_log)
  then have "alert_log (run_ops xs (exec_op x s))
               = last_n 100 (accepted xs (exec_op x s) (accepted [x] s h))"
    by (rule Cons.IH)
  then show ?case by (simp add: accepted_Cons [of x xs])
qed

text \<open>
  C3. From an instance whose log holds at most 100 records (as a new instance does),
  after every run of the public operations the log holds at most 100 records, and
  it is the last 100 of the records accepted since the log was last emptied, oldest
  first. An accepted call leaves the last 100 of the old log followed by its
  record; on a full log that is the old log without its oldest record.
\<close>

theorem alert_log_bounded_most_recent:
  assumes "length (alert_log s) \<le> 100"
  shows "length (alert_log (run_ops xs s)) \<le> 100 \<and>
         alert_log (run_ops xs s) = last_n 100 (accepted xs s (alert_log s)) \<and>
         (\<forall>c r s1. trigger c s = (Some r, s1) \<longrightarrow>
            alert_log s1 = last_n 100 (alert_log s @ [r]) \<and>
            (length (alert_log s) = 100 \<longrightarrow> alert_log s1 = tl (alert_log s) @ [r]))"
proof -
  have "alert_log s = last_n 100 (alert_log s)"
    using assms by (simp add: last_n_id)
  then have eq: "alert_log (run_ops xs s) = last_n 100 (accepted xs s (alert_log s))"
    by (rule run_ops_log)
  then have len: "length (alert_log (run_ops xs s)) \<le> 100"
    by (simp add: last_n_length)
  have app: "\<forall>c r s1. trigger c s = (Some r, s1) \<longrightarrow>
            alert_log s1 = last_n 100 (alert_log s @ [r]) \<and>
            (length (alert_log s) = 100 \<longrightarrow> alert_log s1 = tl (alert_log s) @ [r])"
  proof (intro allI impI)
    fix c r s1
    assume t: "trigger c s = (Some r, s1)"
    with trigger_cases [of c s]
    have s1: "s1 = append_alert r (s\<lparr>last_alert_time := now_set (c_env c)\<rparr>)"
      by auto
    then have a: "alert_log s1 = last_n 100 (alert_log s @ [r])"
      by (simp add: alert_log_append_alert)
    have "length (alert_log s) = 100 \<longrightarrow> last_n 100 (alert_log s @ [r]) = tl (alert_log s) @ [r]"
      by (cases "alert_log s") (auto simp: last_n_def)
    with a show "alert_log s1 = last_n 100 (alert_log s @ [r]) \<and>
            (length (alert_log s) = 100 \<longrightarrow> alert_log s1 = tl (alert_log s) @ [r])"
      by simp
  qed
  from len eq app show ?thesis by blast
qed

theorem alert_log_bounded_most_recent_witness:
  "length (alert_log ex_system) \<le> 100 \<and>
   length (alert_log (run_ops [Trigger (ex_call 100 100), GetRecent 0,
             Trigger (ex_call 200 200), GetCount] ex_system)) \<le> 100 \<and>
   alert_log (run_ops [Trigger (ex_call 100 100), GetRecent 0,
             Trigger (ex_call 200 200), GetCount] ex_system) = [ex_record, ex_record]"
proof -
  let ?xs = "[Trigger (ex_call 100 100), GetRecent 0, Trigger (ex_call 200 200), GetCount]"
  let ?s1 = "append_alert ex_record (ex_system\<lparr>last_alert_time := 100\<rparr>)"
  have h: "length (alert_log ex_system) \<le> 100" by (simp add: ex_system_def)
  have t1: "trigger (ex_call 100 100) ex_system = (Some ex_record, ?s1)"
    by (rule ex_call_trigger) (simp_all add: ex_system_def)
  have t2: "trigger (ex_call 200 200) ?s1
              = (Some ex_record, append_alert ex_record (?s1\<lparr>last_alert_time := 200\<rparr>))"
    by (rule ex_call_trigger) (simp_all add: ex_system_def)
  have acc: "accepted ?xs ex_system (alert_log ex_system) = [ex_record, ex_record]"
    by (simp add: t1 t2) (simp add: ex_system_def)
  from alert_log_bounded_most_recent [OF h, of ?xs] acc h show ?thesis
    by (simp add: last_n_def)
qed

subsection \<open>Concurrent callers\<close>

lemma thread_steps_sequential:
  "run_schedule [c] [0, 0, 0] ([Entered], s) = ([Returned (fst (trigger c s))], snd (trigger c s))"
  by (cases "c_frame c")
    (auto simp: trigger_def trigger_alert_def can_alert_def Let_def)

text \<open>
  C2. Two threads call \<open>trigger_alert\<close> at clock reading 100 on an instance with
  cooldown 5 whose last alert was at 0. The lock is released between the check in
  \<open>can_alert\<close> and the write of \<open>last_alert_time\<close>; scheduled in turns, both
  threads pass the gate, both return a record, and the log holds two records of the
  same cooldown window.
\<close>

theorem concurrent_callers_both_pass_gate:
  "run_schedule [ex_call 100 100, ex_call 100 100] [0, 1, 0, 1, 0, 1]
       ([Entered, Entered], ex_system)
     = ([Returned (Some ex_record), Returned (Some ex_record)],
        ex_system\<lparr>last_alert_time := 100, alert_log := [ex_record, ex_record]\<rparr>)"
  by (simp add: can_alert_def ex_call_def ex_env_def ex_array_def nd_size_def ex_system_def
      ex_record_def save_screenshot_def screenshot_name_def append_alert_def Let_def
      play_sound_async_def)

subsection \<open>Recent alerts\<close>

lemma get_recent_alerts_positive:
  "0 < n \<Longrightarrow> fst (get_recent_alerts n s) = last_n (nat n) (alert_log s)"
  by (simp add: get_recent_alerts_def py_slice_from_def last_n_def nat_diff_distrib')

text \<open>
  C4. \<open>get_recent_alerts(0)\<close> on a log of one record: the slice
  \<open>alert_log[-0:]\<close> is the whole log, so one record is returned where at most zero
  were asked for.
\<close>

theorem get_recent_alerts_zero_returns_all:
  "fst (get_recent_alerts 0 (ex_system\<lparr>alert_log := [ex_record]\<rparr>)) = [ex_record] \<and>
   \<not> length (fst (get_recent_alerts 0 (ex_system\<lparr>alert_log := [ex_record]\<rparr>))) \<le> 0"
  by (simp add: get_recent_alerts_def py_slice_from_def)

section \<open>Properties of the detector\<close>


lemma detect_body_infer_raises:
  "infer m a (confidence_threshold d) = Inl e \<Longrightarrow> detect_body X m d a st0 = Inl (e, st0)"
  by (simp add: detect_body_def)


subsection \<open>Errors inside the loops\<close>

lemma draw_box_has:
  "draw_box X w xy cname confidence col st = Inl (e, st1) \<Longrightarrow> l_has st1 = l_has st"
  "draw_box X w xy cname confidence col st = Inr st2 \<Longrightarrow> l_has st2 = l_has st"
  by (auto simp: draw_box_def Let_def split: prod.splits sum.splits)

lemma box_body_has:
  "box_body X m d a b st = Inl (e, st1) \<Longrightarrow> l_has st1 = l_has st"
  "box_body X m d a b st = Inr st2 \<Longrightarrow> l_has st2 = l_has st"
  by (auto simp: box_body_def split: prod.splits sum.splits list.splits dest!: draw_box_has)

lemma process_box_has [simp]: "l_has (process_box X m d a st b) = l_has st"
  by (auto simp: process_box_def split: sum.splits prod.splits dest: box_body_has)

lemma foldl_process_box_has [simp]:
  "l_has (foldl (process_box X m d a) st bs) = l_has st"
  by (induction bs arbitrary: st) simp_all










subsection \<open>What detect returns when something fails\<close>




text \<open>
  When the only box is unreadable, the call still reports a detection, with empty
  lists.
\<close>

lemma detect_box_error_continues:
  "detect ex_cv2 (Ndarray ex_array) (ex_detector ex_bad_box_model)
     = Inr ((ex_array, [], [], True), (ex_detector ex_bad_box_model)\<lparr>frame_count := 1\<rparr>)"
  by (simp add: detect_def detect_body_def process_result_def result_body_def
      process_box_def box_body_def ex_detector_def ex_bad_box_model_def ex_bad_box_def ex_cv2_def
      ex_array_def nd_size_def Let_def)

end
